theory Spec2Isabelle
  imports Complex_Main "HOL-Library.Sublist"
begin

section \<open>Data model (types.ts)\<close>

text \<open>
  JavaScript strings are modelled as \<open>string\<close>, read as the UTF-8 bytes of the text.
  Every string constant of the program is ASCII, and an ASCII byte never occurs inside
  the encoding of another code point, so searching and splitting at ASCII characters
  agree with the JavaScript operations on UTF-16 code units.
\<close>

record RoomImage =
  image_id :: string
  url :: string
  styleName :: string
  description :: "string option"

datatype Role = User | Model

record ChatMessage =
  msg_id :: string
  role :: Role
  msg_text :: string
  timestamp :: nat
  groundingUrls :: "(string option \<times> string option) list option"

datatype ProcessingStatus = IDLE | GENERATING | EDITING | ERROR

record StylePreset =
  preset_id :: string
  name :: string
  prompt :: string
  thumbnailColor :: string

section \<open>Style presets (constants.ts)\<close>

definition STYLE_PRESETS :: "StylePreset list" where
  "STYLE_PRESETS =
    [\<lparr>preset_id = ''mid-century'', name = ''Mid-Century Modern'',
      prompt = ''Mid-Century Modern style, teak wood furniture, organic curves, geometric patterns, retro vibes, warm tones'',
      thumbnailColor = ''bg-amber-100''\<rparr>,
     \<lparr>preset_id = ''scandi'', name = ''Scandinavian'',
      prompt = ''Scandinavian style, minimalism, white walls, light wood floors, cozy textiles, functional furniture, bright and airy'',
      thumbnailColor = ''bg-slate-100''\<rparr>,
     \<lparr>preset_id = ''industrial'', name = ''Industrial Lofts'',
      prompt = ''Industrial style, exposed brick, metal accents, leather furniture, concrete floors, raw materials, edgy and modern'',
      thumbnailColor = ''bg-stone-300''\<rparr>,
     \<lparr>preset_id = ''boho'', name = ''Bohemian Chic'',
      prompt = ''Bohemian style, eclectic patterns, plants everywhere, rattan furniture, layered rugs, warm earthy colors, relaxed atmosphere'',
      thumbnailColor = ''bg-orange-100''\<rparr>,
     \<lparr>preset_id = ''japandi'', name = ''Japandi'',
      prompt = ''Japandi style, blend of Japanese rustic minimalism and Scandinavian functionality, clean lines, bright spaces, natural materials'',
      thumbnailColor = ''bg-green-50''\<rparr>]"

section \<open>JavaScript built-ins used by the program\<close>

text \<open>\<open>s || d\<close> on an optional string: \<open>undefined\<close>, \<open>null\<close> and the empty string are falsy.\<close>

fun falsy :: "string option \<Rightarrow> bool" where
  "falsy None = True"
| "falsy (Some s) = (s = [])"

fun or_else :: "string option \<Rightarrow> string \<Rightarrow> string" where
  "or_else None d = d"
| "or_else (Some s) d = (if s = [] then d else s)"

text \<open>\<open>str.split(c)\<close> for a one-character separator: never the empty list.\<close>

fun js_split :: "char \<Rightarrow> string \<Rightarrow> string list" where
  "js_split c [] = [[]]"
| "js_split c (x # xs) =
     (if x = c then [] # js_split c xs
      else (case js_split c xs of
              [] \<Rightarrow> [[x]]
            | w # ws \<Rightarrow> (x # w) # ws))"

text \<open>\<open>arr[i]\<close>: \<open>undefined\<close> out of range.\<close>

definition js_index :: "'a list \<Rightarrow> nat \<Rightarrow> 'a option" where
  "js_index xs i = (if i < length xs then Some (xs ! i) else None)"

text \<open>\<open>n.toString()\<close> for a non-negative integer: its decimal digits.\<close>

fun toString :: "nat \<Rightarrow> string" where
  "toString n =
     (if n < 10 then [char_of (48 + n)]
      else toString (n div 10) @ [char_of (48 + n mod 10)])"

declare toString.simps [simp del]

text \<open>\<open>strs.join(sep)\<close>.\<close>

fun join :: "string \<Rightarrow> string list \<Rightarrow> string" where
  "join sep [] = []"
| "join sep [s] = s"
| "join sep (s # t # ss) = s @ sep @ join sep (t # ss)"

text \<open>A template literal prints \<open>undefined\<close> for a missing value.\<close>

fun template_str :: "string option \<Rightarrow> string" where
  "template_str None = ''undefined''"
| "template_str (Some s) = s"

section \<open>The AI gateway (services/geminiService.ts)\<close>

subsection \<open>Request and response shapes of the generative service\<close>

record InlineData =
  mimeType :: "string option"
  data :: "string option"

record Part =
  part_text :: "string option"
  inlineData :: "InlineData option"

record Content =
  parts :: "Part list option"

record WebChunk =
  uri :: "string option"
  title :: "string option"

record GroundingChunk =
  web :: "WebChunk option"

record GroundingMetadata =
  groundingChunks :: "GroundingChunk list option"

record Candidate =
  content :: "Content option"
  groundingMetadata :: "GroundingMetadata option"

record Response =
  candidates :: "Candidate list option"
  response_text :: "string option"

record Request =
  model :: string
  contents :: "Part list"
  systemInstruction :: "string option"
  googleSearch :: bool

text \<open>
  A thrown value: \<open>Error msg\<close> is \<open>new Error(msg)\<close> of the program, \<open>ServiceFailure\<close> a
  rejection of the service call itself (transport or service error).
\<close>

datatype js_error = Error string | ServiceFailure

text \<open>
  The external service is a parameter: the settled outcome of
  \<open>ai.models.generateContent(request)\<close>, \<open>Inl\<close> when the promise rejects.
\<close>

type_synonym service = "Request \<Rightarrow> js_error + Response"

subsection \<open>Helpers\<close>

definition stripBase64Prefix :: "string \<Rightarrow> string" where
  "stripBase64Prefix base64Str = or_else (js_index (js_split CHR '','' base64Str) 1) base64Str"

definition getMimeType :: "string \<Rightarrow> string" where
  "getMimeType base64Str =
     or_else
       (case js_index (js_split CHR '';'' base64Str) 0 of
          None \<Rightarrow> None
        | Some h \<Rightarrow> js_index (js_split CHR '':'' h) 1)
       ''image/jpeg''"

text \<open>\<open>response.candidates?.[0]?.content?.parts || []\<close>\<close>

definition response_parts :: "Response \<Rightarrow> Part list" where
  "response_parts response =
     (case candidates response of
        None \<Rightarrow> []
      | Some cs \<Rightarrow>
          (case js_index cs 0 of
             None \<Rightarrow> []
           | Some c \<Rightarrow>
               (case content c of
                  None \<Rightarrow> []
                | Some ct \<Rightarrow> (case parts ct of None \<Rightarrow> [] | Some ps \<Rightarrow> ps))))"

text \<open>The data URL built from an inline image part.\<close>

definition data_url :: "InlineData \<Rightarrow> string" where
  "data_url d =
     ''data:'' @ or_else (mimeType d) ''image/jpeg'' @ '';base64,'' @ template_str (data d)"

text \<open>
  The loop \<open>for (const part of ...) { if (part.inlineData) return ...; } throw new Error(msg)\<close>
  shared by both image operations.
\<close>

fun extract_image :: "string \<Rightarrow> Part list \<Rightarrow> js_error + string" where
  "extract_image msg [] = Inl (Error msg)"
| "extract_image msg (part # rest) =
     (case inlineData part of
        Some d \<Rightarrow> Inr (data_url d)
      | None \<Rightarrow> extract_image msg rest)"

subsection \<open>generateReimaginedRoom\<close>

definition image_request :: "string \<Rightarrow> string \<Rightarrow> Request" where
  "image_request prompt_text imageBase64 =
     \<lparr>model = ''gemini-2.5-flash-image'',
      contents =
        [\<lparr>part_text = Some prompt_text, inlineData = None\<rparr>,
         \<lparr>part_text = None,
          inlineData = Some \<lparr>mimeType = Some (getMimeType imageBase64),
                             data = Some (stripBase64Prefix imageBase64)\<rparr>\<rparr>],
      systemInstruction = None,
      googleSearch = False\<rparr>"

definition generateReimaginedRoom_request :: "string \<Rightarrow> string \<Rightarrow> Request" where
  "generateReimaginedRoom_request imageBase64 stylePrompt =
     image_request
       (''Redesign this room interior. Keep the structural layout (walls, windows, doors) exactly the same. Apply the following style: ''
        @ stylePrompt @ ''. Make it photorealistic, high quality interior design photography.'')
       imageBase64"

definition generateReimaginedRoom :: "service \<Rightarrow> string \<Rightarrow> string \<Rightarrow> js_error + string" where
  "generateReimaginedRoom svc imageBase64 stylePrompt =
     (case svc (generateReimaginedRoom_request imageBase64 stylePrompt) of
        Inl e \<Rightarrow> Inl e
      | Inr response \<Rightarrow> extract_image ''No image generated.'' (response_parts response))"

subsection \<open>editRoomImage\<close>

definition editRoomImage_request :: "string \<Rightarrow> string \<Rightarrow> Request" where
  "editRoomImage_request imageBase64 userInstruction =
     image_request
       (''Edit this image. Instruction: '' @ userInstruction
        @ ''. Maintain the rest of the image exactly as is. Photorealistic.'')
       imageBase64"

definition editRoomImage :: "service \<Rightarrow> string \<Rightarrow> string \<Rightarrow> js_error + string" where
  "editRoomImage svc imageBase64 userInstruction =
     (case svc (editRoomImage_request imageBase64 userInstruction) of
        Inl e \<Rightarrow> Inl e
      | Inr response \<Rightarrow> extract_image ''No edited image generated.'' (response_parts response))"

subsection \<open>sendChatMessage\<close>

definition newline :: string where
  "newline = [CHR 0x0A]"

definition chat_systemInstruction :: string where
  "chat_systemInstruction =
     ''You are an expert Interior Design Consultant. '' @ newline
     @ ''  Your goal is to help users refine their room designs and find products.'' @ newline
     @ ''  The user is looking at a specific design iteration of their room.'' @ newline
     @ ''  If the user asks for products, furniture, or decor, use Google Search to find REAL, shoppable links.'' @ newline
     @ ''  Be helpful, concise, and stylish in your tone.''"

text \<open>\<open>history.slice(-6)\<close>: the last six entries, or all of them when there are fewer.\<close>

definition slice_last6 :: "'a list \<Rightarrow> 'a list" where
  "slice_last6 xs = drop (length xs - 6) xs"

definition historyText :: "ChatMessage list \<Rightarrow> string" where
  "historyText history =
     join newline
       (map (\<lambda>m. (if role m = User then ''User'' else ''Designer'') @ '': '' @ msg_text m)
          (slice_last6 history))"

definition sendChatMessage_request :: "ChatMessage list \<Rightarrow> string \<Rightarrow> string option \<Rightarrow> Request" where
  "sendChatMessage_request history newMessage currentImageBase64 =
     \<lparr>model = ''gemini-3-pro-preview'',
      contents =
        (case currentImageBase64 of
           None \<Rightarrow> []
         | Some img \<Rightarrow>
             (if img = [] then []
              else [\<lparr>part_text = None,
                     inlineData = Some \<lparr>mimeType = Some (getMimeType img),
                                        data = Some (stripBase64Prefix img)\<rparr>\<rparr>,
                    \<lparr>part_text = Some ''This is the current room design we are discussing.'',
                     inlineData = None\<rparr>]))
        @ [\<lparr>part_text =
              Some (historyText history @ newline @ ''User: '' @ newMessage @ newline @ ''Designer:''),
            inlineData = None\<rparr>],
      systemInstruction = Some chat_systemInstruction,
      googleSearch = True\<rparr>"

text \<open>\<open>response.candidates?.[0]?.groundingMetadata?.groundingChunks\<close>\<close>

definition response_chunks :: "Response \<Rightarrow> GroundingChunk list option" where
  "response_chunks response =
     (case candidates response of
        None \<Rightarrow> None
      | Some cs \<Rightarrow>
          (case js_index cs 0 of
             None \<Rightarrow> None
           | Some c \<Rightarrow>
               (case groundingMetadata c of
                  None \<Rightarrow> None
                | Some g \<Rightarrow> groundingChunks g)))"

fun collect_groundingUrls :: "GroundingChunk list \<Rightarrow> (string option \<times> string option) list" where
  "collect_groundingUrls [] = []"
| "collect_groundingUrls (chunk # rest) =
     (case web chunk of
        None \<Rightarrow> collect_groundingUrls rest
      | Some w \<Rightarrow> (uri w, title w) # collect_groundingUrls rest)"

text \<open>\<open>now k\<close> is the \<open>k\<close>-th reading of \<open>Date.now()\<close> made by the running operation.\<close>

type_synonym clock = "nat \<Rightarrow> nat"

definition sendChatMessage ::
  "service \<Rightarrow> clock \<Rightarrow> ChatMessage list \<Rightarrow> string \<Rightarrow> string option \<Rightarrow> js_error + ChatMessage" where
  "sendChatMessage svc now history newMessage currentImageBase64 =
     (case svc (sendChatMessage_request history newMessage currentImageBase64) of
        Inl e \<Rightarrow> Inl e
      | Inr response \<Rightarrow>
          Inr \<lparr>msg_id = toString (now 0),
               role = Model,
               msg_text = or_else (response_text response)
                            ''I couldn't generate a response. Please try again.'',
               timestamp = now 1,
               groundingUrls =
                 Some (case response_chunks response of
                         None \<Rightarrow> []
                       | Some chunks \<Rightarrow> collect_groundingUrls chunks)\<rparr>)"

section \<open>The application controller (component App, src/unnamed/part_000)\<close>

subsection \<open>Session state and its updates\<close>

record app_state =
  originalImage :: "string option"
  generatedImages :: "RoomImage list"
  selectedImageIndex :: int
  status :: ProcessingStatus
  chatMessages :: "ChatMessage list"
  errorMsg :: "string option"

text \<open>
  A handler is modelled by the list of its effects in program order: the calls of the state
  setters and the requests it sends to the gateway. \<open>AppendGeneratedImage img\<close> is
  \<open>setGeneratedImages(prev => [...prev, img])\<close>, \<open>AppendChatMessage m\<close> is
  \<open>setChatMessages(prev => [...prev, m])\<close>; both read the state current when they are applied.
  Values a handler reads from its closure (\<open>status\<close>, \<open>generatedImages.length\<close>,
  \<open>currentDisplayedImage\<close>, ...) come from the state \<open>c\<close> of the render that created it.
\<close>

datatype effect =
    SetOriginalImage "string option"
  | SetGeneratedImages "RoomImage list"
  | AppendGeneratedImage RoomImage
  | SetSelectedImageIndex int
  | SetStatus ProcessingStatus
  | SetChatMessages "ChatMessage list"
  | AppendChatMessage ChatMessage
  | SetErrorMsg "string option"
  | GatewayRequest Request

fun apply_effect :: "app_state \<Rightarrow> effect \<Rightarrow> app_state" where
  "apply_effect s (SetOriginalImage v) = s\<lparr>originalImage := v\<rparr>"
| "apply_effect s (SetGeneratedImages v) = s\<lparr>generatedImages := v\<rparr>"
| "apply_effect s (AppendGeneratedImage img) = s\<lparr>generatedImages := generatedImages s @ [img]\<rparr>"
| "apply_effect s (SetSelectedImageIndex i) = s\<lparr>selectedImageIndex := i\<rparr>"
| "apply_effect s (SetStatus v) = s\<lparr>status := v\<rparr>"
| "apply_effect s (SetChatMessages v) = s\<lparr>chatMessages := v\<rparr>"
| "apply_effect s (AppendChatMessage m) = s\<lparr>chatMessages := chatMessages s @ [m]\<rparr>"
| "apply_effect s (SetErrorMsg v) = s\<lparr>errorMsg := v\<rparr>"
| "apply_effect s (GatewayRequest r) = s"

definition apply_effects :: "effect list \<Rightarrow> app_state \<Rightarrow> app_state" where
  "apply_effects effs s = foldl apply_effect s effs"

text \<open>The initial state of the component.\<close>

definition initial_state :: app_state where
  "initial_state =
     \<lparr>originalImage = None, generatedImages = [], selectedImageIndex = - 1, status = IDLE,
      chatMessages = [], errorMsg = None\<rparr>"

text \<open>
  \<open>const currentDisplayedImage = selectedImageIndex >= 0 ? generatedImages[selectedImageIndex] : null\<close>
\<close>

definition currentDisplayedImage :: "app_state \<Rightarrow> RoomImage option" where
  "currentDisplayedImage c =
     (if selectedImageIndex c \<ge> 0 then js_index (generatedImages c) (nat (selectedImageIndex c))
      else None)"

subsection \<open>Upload, sample image, reset, thumbnail selection\<close>

text \<open>The body of \<open>reader.onloadend\<close>, shared by upload and sample image.\<close>

definition onloadend :: "string option \<Rightarrow> effect list" where
  "onloadend base64 =
     [SetOriginalImage base64, SetGeneratedImages [], SetSelectedImageIndex (- 1),
      SetChatMessages [], SetStatus IDLE, SetErrorMsg None]"

text \<open>
  \<open>handleFileUpload\<close>: \<open>file\<close> is \<open>e.target.files?.[0]\<close>, given as the result the reader
  ends with for it (\<open>None\<close> when reading fails).
\<close>

fun handleFileUpload :: "string option option \<Rightarrow> effect list" where
  "handleFileUpload None = []"
| "handleFileUpload (Some reader_result) = onloadend reader_result"

text \<open>\<open>handleSampleImage\<close>: the fetch either throws or yields the reader's result.\<close>

fun handleSampleImage :: "js_error + string option \<Rightarrow> effect list" where
  "handleSampleImage (Inl e) =
     [SetErrorMsg (Some ''Could not load sample image. Please upload one instead.'')]"
| "handleSampleImage (Inr reader_result) = onloadend reader_result"

text \<open>The \<open>onClick\<close> of the reset button (title "Start Over").\<close>

definition reset_onClick :: "effect list" where
  "reset_onClick = [SetOriginalImage None, SetGeneratedImages [], SetChatMessages []]"

text \<open>The \<open>onClick\<close> of a thumbnail of the history.\<close>

definition thumbnail_onClick :: "nat \<Rightarrow> effect list" where
  "thumbnail_onClick idx = [SetSelectedImageIndex (int idx)]"

subsection \<open>handleStyleSelect\<close>

definition handleStyleSelect :: "service \<Rightarrow> clock \<Rightarrow> app_state \<Rightarrow> string \<Rightarrow> effect list" where
  "handleStyleSelect svc now c styleId =
     (case originalImage c of
        None \<Rightarrow> []
      | Some original \<Rightarrow>
          (if original = [] \<or> status c = GENERATING then []
           else
             (case find (\<lambda>s. preset_id s = styleId) STYLE_PRESETS of
                None \<Rightarrow> []
              | Some style \<Rightarrow>
                  [SetStatus GENERATING, SetErrorMsg None,
                   GatewayRequest (generateReimaginedRoom_request original (prompt style))]
                  @ (case generateReimaginedRoom svc original (prompt style) of
                       Inr resultBase64 \<Rightarrow>
                         [AppendGeneratedImage
                            \<lparr>image_id = toString (now 0),
                             url = resultBase64,
                             styleName = name style,
                             description = Some (''Reimagined in '' @ name style @ '' style'')\<rparr>,
                          SetSelectedImageIndex (int (length (generatedImages c)))]
                     | Inl err \<Rightarrow>
                         [SetErrorMsg (Some ''Failed to generate design. Please try again.'')])
                  @ [SetStatus IDLE])))"

subsection \<open>handleChatRequest\<close>

text \<open>
  \<open>/change|add|remove|make|turn/i.test(text)\<close>. Without the \<open>u\<close> flag, two characters
  match under \<open>i\<close> when their upper-case forms agree, and a character outside ASCII is
  never folded onto an ASCII one.
\<close>

definition canonicalize :: "char \<Rightarrow> char" where
  "canonicalize ch =
     (let n = (of_char ch :: nat) in if 97 \<le> n \<and> n \<le> 122 then char_of (n - 32) else ch)"

fun match_here :: "string \<Rightarrow> string \<Rightarrow> bool" where
  "match_here [] t = True"
| "match_here (p # ps) [] = False"
| "match_here (p # ps) (ch # t) = (canonicalize p = canonicalize ch \<and> match_here ps t)"

fun regex_test :: "string list \<Rightarrow> string \<Rightarrow> bool" where
  "regex_test alts [] = list_ex (\<lambda>a. match_here a []) alts"
| "regex_test alts (ch # t) = (list_ex (\<lambda>a. match_here a (ch # t)) alts \<or> regex_test alts t)"

definition edit_tokens :: "string list" where
  "edit_tokens = [''change'', ''add'', ''remove'', ''make'', ''turn'']"

definition isEditCommand :: "string \<Rightarrow> bool" where
  "isEditCommand text = regex_test edit_tokens text"

text \<open>\<open>currentDisplayedImage?.url || originalImage || undefined\<close>\<close>

definition contextImage :: "app_state \<Rightarrow> string option" where
  "contextImage c =
     (if falsy (map_option url (currentDisplayedImage c))
      then (if falsy (originalImage c) then None else originalImage c)
      else map_option url (currentDisplayedImage c))"

definition handleChatRequest :: "service \<Rightarrow> clock \<Rightarrow> app_state \<Rightarrow> string \<Rightarrow> effect list" where
  "handleChatRequest svc now c text =
     (if status c = EDITING then []
      else
        [AppendChatMessage
           \<lparr>msg_id = toString (now 0), role = User, msg_text = text, timestamp = now 1,
            groundingUrls = None\<rparr>]
        @ (case (if isEditCommand text then currentDisplayedImage c else None) of
             Some displayed \<Rightarrow>
               [SetStatus EDITING,
                AppendChatMessage
                  \<lparr>msg_id = toString (now 2 + 1), role = Model,
                   msg_text = ''I'm applying those changes to the design...'', timestamp = now 3,
                   groundingUrls = None\<rparr>,
                GatewayRequest (editRoomImage_request (url displayed) text)]
               @ (case editRoomImage svc (url displayed) text of
                    Inr editedBase64 \<Rightarrow>
                      [AppendGeneratedImage
                         \<lparr>image_id = toString (now 4), url = editedBase64,
                          styleName = ''Custom Edit'', description = Some text\<rparr>,
                       SetSelectedImageIndex (int (length (generatedImages c))),
                       AppendChatMessage
                         \<lparr>msg_id = toString (now 5 + 2), role = Model,
                          msg_text = ''Here is the updated design based on your request.'',
                          timestamp = now 6, groundingUrls = None\<rparr>]
                  | Inl err \<Rightarrow>
                      [AppendChatMessage
                         \<lparr>msg_id = toString (now 4), role = Model,
                          msg_text = ''Sorry, I encountered an issue editing the image.'',
                          timestamp = now 5, groundingUrls = None\<rparr>])
               @ [SetStatus IDLE]
           | None \<Rightarrow>
               [SetStatus GENERATING,
                GatewayRequest (sendChatMessage_request (chatMessages c) text (contextImage c))]
               @ (case sendChatMessage svc (\<lambda>k. now (k + 2)) (chatMessages c) text (contextImage c) of
                    Inr responseMsg \<Rightarrow> [AppendChatMessage responseMsg]
                  | Inl err \<Rightarrow>
                      [AppendChatMessage
                         \<lparr>msg_id = toString (now 2), role = Model,
                          msg_text = ''I'm having trouble connecting right now. Please try again.'',
                          timestamp = now 3, groundingUrls = None\<rparr>])
               @ [SetStatus IDLE]))"

subsection \<open>The controls that call the handlers\<close>

text \<open>
  A style button: \<open>onClick={() => handleStyleSelect(style.id)}\<close> with
  \<open>disabled={status !== ProcessingStatus.IDLE}\<close>; a disabled button dispatches no click.
\<close>

definition styleButton_click :: "service \<Rightarrow> clock \<Rightarrow> app_state \<Rightarrow> string \<Rightarrow> effect list" where
  "styleButton_click svc now c styleId =
     (if status c = IDLE then handleStyleSelect svc now c styleId else [])"

text \<open>
  \<open>String.prototype.trim\<close>: the white space and line terminator code points of
  ECMAScript, in UTF-8.
\<close>

definition js_whitespace :: "string list" where
  "js_whitespace =
     [[CHR 0x09], [CHR 0x0A], [CHR 0x0B], [CHR 0x0C], [CHR 0x0D], [CHR 0x20],
      [CHR 0xC2, CHR 0xA0],
      [CHR 0xE1, CHR 0x9A, CHR 0x80],
      [CHR 0xE2, CHR 0x80, CHR 0x80], [CHR 0xE2, CHR 0x80, CHR 0x81],
      [CHR 0xE2, CHR 0x80, CHR 0x82], [CHR 0xE2, CHR 0x80, CHR 0x83],
      [CHR 0xE2, CHR 0x80, CHR 0x84], [CHR 0xE2, CHR 0x80, CHR 0x85],
      [CHR 0xE2, CHR 0x80, CHR 0x86], [CHR 0xE2, CHR 0x80, CHR 0x87],
      [CHR 0xE2, CHR 0x80, CHR 0x88], [CHR 0xE2, CHR 0x80, CHR 0x89],
      [CHR 0xE2, CHR 0x80, CHR 0x8A],
      [CHR 0xE2, CHR 0x80, CHR 0xA8], [CHR 0xE2, CHR 0x80, CHR 0xA9],
      [CHR 0xE2, CHR 0x80, CHR 0xAF],
      [CHR 0xE2, CHR 0x81, CHR 0x9F],
      [CHR 0xE3, CHR 0x80, CHR 0x80],
      [CHR 0xEF, CHR 0xBB, CHR 0xBF]]"

function strip_leading :: "string list \<Rightarrow> string \<Rightarrow> string" where
  "strip_leading codes s =
     (case find (\<lambda>w. w \<noteq> [] \<and> prefix w s) codes of
        None \<Rightarrow> s
      | Some w \<Rightarrow> strip_leading codes (drop (length w) s))"
  by pat_completeness auto
termination
proof (relation "measure (\<lambda>(codes, s). length s)")
  show "wf (measure (\<lambda>(codes, s). length s))" by simp
next
  fix codes :: "string list" and s w :: string
  assume "find (\<lambda>w. w \<noteq> [] \<and> prefix w s) codes = Some w"
  then have "w \<noteq> []" and "prefix w s"
    by (auto simp: find_Some_iff)
  then have "length w \<le> length s" and "\<exists>n. length w = Suc n"
    by (auto simp: prefix_length_le neq_Nil_conv)
  then have "length s - length w < length s"
    by auto
  then show "((codes, drop (length w) s), (codes, s)) \<in> measure (\<lambda>(codes, s). length s)"
    by simp
qed

declare strip_leading.simps [simp del]

definition js_trim :: "string \<Rightarrow> string" where
  "js_trim s = rev (strip_leading (map rev js_whitespace) (rev (strip_leading js_whitespace s)))"

text \<open>
  \<open>handleSubmit\<close> of components/ChatInterface.tsx: the new value of the input box and the effects of the
  call it makes to \<open>onSendMessage\<close>, if any.
\<close>

definition handleSubmit :: "(string \<Rightarrow> effect list) \<Rightarrow> bool \<Rightarrow> string \<Rightarrow> string \<times> effect list" where
  "handleSubmit onSendMessage isProcessing input =
     (if js_trim input \<noteq> [] \<and> \<not> isProcessing then ([], onSendMessage (js_trim input))
      else (input, []))"

text \<open>
  The chat panel as the controller mounts it: \<open>onSendMessage={handleChatRequest}\<close>,
  \<open>isProcessing={status !== ProcessingStatus.IDLE}\<close>.
\<close>

definition chat_submit :: "service \<Rightarrow> clock \<Rightarrow> app_state \<Rightarrow> string \<Rightarrow> string \<times> effect list" where
  "chat_submit svc now c input =
     handleSubmit (handleChatRequest svc now c) (status c \<noteq> IDLE) input"

section \<open>The compare view (component CompareSlider, src/unnamed/part_001)\<close>

text \<open>
  JavaScript numbers: \<open>Num r\<close> is a finite number, \<open>NaN\<close> and the two infinities are as in
  IEEE 754. The sign of zero is not modelled. Rounding is a parameter \<open>rnd\<close>, the map from
  the exact result of an operation to the number the operation returns (which may overflow
  to an infinity).
\<close>

datatype jsnum = NaN | NegInf | Num real | PosInf

type_synonym rounding = "real \<Rightarrow> jsnum"

fun js_neg :: "jsnum \<Rightarrow> jsnum" where
  "js_neg NaN = NaN"
| "js_neg NegInf = PosInf"
| "js_neg PosInf = NegInf"
| "js_neg (Num a) = Num (- a)"

fun js_sub :: "rounding \<Rightarrow> jsnum \<Rightarrow> jsnum \<Rightarrow> jsnum" where
  "js_sub rnd NaN b = NaN"
| "js_sub rnd a NaN = NaN"
| "js_sub rnd PosInf PosInf = NaN"
| "js_sub rnd NegInf NegInf = NaN"
| "js_sub rnd PosInf b = PosInf"
| "js_sub rnd NegInf b = NegInf"
| "js_sub rnd (Num a) PosInf = NegInf"
| "js_sub rnd (Num a) NegInf = PosInf"
| "js_sub rnd (Num a) (Num b) = rnd (a - b)"

text \<open>An infinity with the sign of \<open>a\<close> times the sign of \<open>b\<close>.\<close>

definition signed_inf :: "real \<Rightarrow> real \<Rightarrow> jsnum" where
  "signed_inf a b = (if (0 \<le> a) = (0 \<le> b) then PosInf else NegInf)"

fun js_div :: "rounding \<Rightarrow> jsnum \<Rightarrow> jsnum \<Rightarrow> jsnum" where
  "js_div rnd NaN b = NaN"
| "js_div rnd a NaN = NaN"
| "js_div rnd (Num a) (Num b) =
     (if b = 0 then (if a = 0 then NaN else signed_inf a 1) else rnd (a / b))"
| "js_div rnd (Num a) b = Num 0"
| "js_div rnd PosInf (Num b) = signed_inf 1 b"
| "js_div rnd NegInf (Num b) = signed_inf (- 1) b"
| "js_div rnd a b = NaN"

fun js_mul :: "rounding \<Rightarrow> jsnum \<Rightarrow> jsnum \<Rightarrow> jsnum" where
  "js_mul rnd NaN b = NaN"
| "js_mul rnd a NaN = NaN"
| "js_mul rnd (Num a) (Num b) = rnd (a * b)"
| "js_mul rnd (Num a) PosInf = (if a = 0 then NaN else signed_inf a 1)"
| "js_mul rnd (Num a) NegInf = (if a = 0 then NaN else signed_inf a (- 1))"
| "js_mul rnd PosInf (Num b) = (if b = 0 then NaN else signed_inf 1 b)"
| "js_mul rnd NegInf (Num b) = (if b = 0 then NaN else signed_inf (- 1) b)"
| "js_mul rnd PosInf PosInf = PosInf"
| "js_mul rnd NegInf NegInf = PosInf"
| "js_mul rnd a b = NegInf"

fun Math_min :: "jsnum \<Rightarrow> jsnum \<Rightarrow> jsnum" where
  "Math_min NaN b = NaN"
| "Math_min a NaN = NaN"
| "Math_min NegInf b = NegInf"
| "Math_min a NegInf = NegInf"
| "Math_min PosInf b = b"
| "Math_min a PosInf = a"
| "Math_min (Num a) (Num b) = Num (min a b)"

fun Math_max :: "jsnum \<Rightarrow> jsnum \<Rightarrow> jsnum" where
  "Math_max NaN b = NaN"
| "Math_max a NaN = NaN"
| "Math_max PosInf b = PosInf"
| "Math_max a PosInf = PosInf"
| "Math_max NegInf b = b"
| "Math_max a NegInf = a"
| "Math_max (Num a) (Num b) = Num (max a b)"

text \<open>The part of \<open>getBoundingClientRect()\<close> that \<open>handleMove\<close> reads.\<close>

record DOMRect =
  rect_left :: real
  rect_width :: real

text \<open>
  \<open>handleMove(clientX)\<close>: the value given to \<open>setSliderPosition\<close>, \<open>None\<close> when
  \<open>containerRef.current\<close> is null and the position is left as it is.
\<close>

definition handleMove :: "rounding \<Rightarrow> DOMRect option \<Rightarrow> real \<Rightarrow> jsnum option" where
  "handleMove rnd current clientX =
     (case current of
        None \<Rightarrow> None
      | Some rect \<Rightarrow>
          (let x = Math_max (Num 0)
                     (Math_min (js_sub rnd (Num clientX) (Num (rect_left rect)))
                        (Num (rect_width rect)));
               percent = Math_max (Num 0)
                           (Math_min (js_mul rnd (js_div rnd x (Num (rect_width rect))) (Num 100))
                              (Num 100))
           in Some percent))"

section \<open>Observations on effect lists, and running handlers in sequence\<close>

text \<open>The messages, images and gateway requests of an effect list, in program order.\<close>

fun appended_messages :: "effect list \<Rightarrow> ChatMessage list" where
  "appended_messages [] = []"
| "appended_messages (AppendChatMessage m # effs) = m # appended_messages effs"
| "appended_messages (e # effs) = appended_messages effs"

fun appended_images :: "effect list \<Rightarrow> RoomImage list" where
  "appended_images [] = []"
| "appended_images (AppendGeneratedImage img # effs) = img # appended_images effs"
| "appended_images (e # effs) = appended_images effs"

fun gateway_requests :: "effect list \<Rightarrow> Request list" where
  "gateway_requests [] = []"
| "gateway_requests (GatewayRequest r # effs) = r # gateway_requests effs"
| "gateway_requests (e # effs) = gateway_requests effs"

text \<open>
  One style selection run to its end before anything else happens: the handler is created
  by the render of state \<open>s\<close> and its effects are applied to \<open>s\<close>.
\<close>

definition run_handleStyleSelect :: "service \<Rightarrow> clock \<Rightarrow> string \<Rightarrow> app_state \<Rightarrow> app_state" where
  "run_handleStyleSelect svc now styleId s = apply_effects (handleStyleSelect svc now s styleId) s"

definition run_handleChatRequest :: "service \<Rightarrow> clock \<Rightarrow> string \<Rightarrow> app_state \<Rightarrow> app_state" where
  "run_handleChatRequest svc now text s = apply_effects (handleChatRequest svc now s text) s"

text \<open>
  A sequence of style selections, each with the service and the clock it meets, one run
  after the other.
\<close>

fun run_style_selections :: "(service \<times> clock \<times> string) list \<Rightarrow> app_state \<Rightarrow> app_state" where
  "run_style_selections [] s = s"
| "run_style_selections ((svc, now, styleId) # calls) s =
     run_style_selections calls (run_handleStyleSelect svc now styleId s)"

text \<open>Every selection of the sequence is successful: it appends an image.\<close>

fun all_successful :: "(service \<times> clock \<times> string) list \<Rightarrow> app_state \<Rightarrow> bool" where
  "all_successful [] s = True"
| "all_successful ((svc, now, styleId) # calls) s =
     (appended_images (handleStyleSelect svc now s styleId) \<noteq> []
      \<and> all_successful calls (run_handleStyleSelect svc now styleId s))"

text \<open>
  A handler is suspended at its \<open>await\<close>: the effects up to and including the gateway
  request happen when it is called, the remaining ones when the gateway answers. Whatever
  other handler runs in between is applied between the two parts.
\<close>

fun before_answer :: "effect list \<Rightarrow> effect list" where
  "before_answer [] = []"
| "before_answer (GatewayRequest r # effs) = [GatewayRequest r]"
| "before_answer (e # effs) = e # before_answer effs"

fun after_answer :: "effect list \<Rightarrow> effect list" where
  "after_answer [] = []"
| "after_answer (GatewayRequest r # effs) = effs"
| "after_answer (e # effs) = after_answer effs"

section \<open>The specification's reading of the edit-command classification\<close>

text \<open>
  The specification: an instruction is an edit command when it contains one of the tokens
  change, add, remove, make, turn as a substring, case-insensitively.
\<close>

definition to_lower :: "char \<Rightarrow> char" where
  "to_lower ch =
     (let n = (of_char ch :: nat) in if 65 \<le> n \<and> n \<le> 90 then char_of (n + 32) else ch)"

definition contains_ci :: "string \<Rightarrow> string \<Rightarrow> bool" where
  "contains_ci tok text = sublist (map to_lower tok) (map to_lower text)"

definition spec_isEditCommand :: "string \<Rightarrow> bool" where
  "spec_isEditCommand text =
     (contains_ci ''change'' text \<or> contains_ci ''add'' text \<or> contains_ci ''remove'' text
      \<or> contains_ci ''make'' text \<or> contains_ci ''turn'' text)"



section \<open>Example inputs\<close>

definition example_image :: RoomImage where
  "example_image =
     \<lparr>image_id = ''1'', url = ''data:image/png;base64,AAAA'', styleName = ''Scandinavian'',
      description = Some ''Reimagined in Scandinavian style''\<rparr>"

text \<open>A session with an uploaded photo and one generated design, which is displayed.\<close>

definition example_state :: app_state where
  "example_state =
     \<lparr>originalImage = Some ''data:image/jpeg;base64,QUJD'', generatedImages = [example_image],
      selectedImageIndex = 0, status = IDLE, chatMessages = [], errorMsg = None\<rparr>"

text \<open>A service whose call fails, and one that answers with a single inline image.\<close>

definition failing_service :: service where
  "failing_service request = Inl ServiceFailure"

definition image_response :: Response where
  "image_response =
     \<lparr>candidates =
        Some [\<lparr>content =
                 Some \<lparr>parts =
                         Some [\<lparr>part_text = Some ''Here you go'', inlineData = None\<rparr>,
                               \<lparr>part_text = None,
                                inlineData = Some \<lparr>mimeType = Some ''image/png'',
                                                   data = Some ''QUJD''\<rparr>\<rparr>]\<rparr>,
               groundingMetadata = None\<rparr>],
      response_text = Some ''Here you go''\<rparr>"

definition image_service :: service where
  "image_service request = Inr image_response"



definition example_clock :: clock where
  "example_clock k = 1700000000000 + k"

section \<open>Edit-command classification\<close>

lemma of_char_canonicalize:
  "(of_char (canonicalize ch) :: nat) =
     (if 97 \<le> (of_char ch :: nat) \<and> (of_char ch :: nat) \<le> 122 then of_char ch - 32 else of_char ch)"
  by (auto simp: canonicalize_def Let_def)

lemma of_char_to_lower:
  "(of_char (to_lower ch) :: nat) =
     (if 65 \<le> (of_char ch :: nat) \<and> (of_char ch :: nat) \<le> 90 then of_char ch + 32 else of_char ch)"
  by (auto simp: to_lower_def Let_def)

lemma case_fold_arith:
  fixes n m :: nat
  shows "((if 97 \<le> n \<and> n \<le> 122 then n - 32 else n) = (if 97 \<le> m \<and> m \<le> 122 then m - 32 else m))
     \<longleftrightarrow> ((if 65 \<le> n \<and> n \<le> 90 then n + 32 else n) = (if 65 \<le> m \<and> m \<le> 90 then m + 32 else m))"
  by (simp split: if_splits) arith

text \<open>Folding to upper case, as the regular expression does, identifies the same characters
  as folding to lower case.\<close>

lemma canonicalize_eq_iff:
  "canonicalize a = canonicalize b \<longleftrightarrow> to_lower a = to_lower b"
proof -
  have "canonicalize a = canonicalize b \<longleftrightarrow>
        (of_char (canonicalize a) :: nat) = of_char (canonicalize b)"
    by simp
  also have "\<dots> \<longleftrightarrow> (of_char (to_lower a) :: nat) = of_char (to_lower b)"
    by (simp only: of_char_canonicalize of_char_to_lower case_fold_arith)
  also have "\<dots> \<longleftrightarrow> to_lower a = to_lower b"
    by simp
  finally show ?thesis .
qed

lemma match_here_prefix:
  "match_here p t \<longleftrightarrow> prefix (map to_lower p) (map to_lower t)"
  by (induction p t rule: match_here.induct) (auto simp: canonicalize_eq_iff)

lemma regex_test_sublist:
  "regex_test alts t \<longleftrightarrow> (\<exists>a \<in> set alts. sublist (map to_lower a) (map to_lower t))"
proof (induction t)
  case Nil
  show ?case by (auto simp: list_ex_iff match_here_prefix)
next
  case (Cons ch t)
  show ?case
    by (auto simp: list_ex_iff match_here_prefix sublist_Cons_right Cons.IH)
qed

text \<open>
  C6. An instruction text is classified as an edit command by \<open>handleChatRequest\<close> if and
  only if it contains one of the substrings change, add, remove, make, turn
  case-insensitively; a text containing none of them is therefore classified as a chat
  question.
\<close>

theorem C6_isEditCommand_iff_contains_token:
  "isEditCommand text \<longleftrightarrow> spec_isEditCommand text"
  by (simp add: isEditCommand_def spec_isEditCommand_def contains_ci_def regex_test_sublist
      edit_tokens_def)

text \<open>The two examples of the specification.\<close>

lemma isEditCommand_example_edit: "isEditCommand ''change the wall color to blue''"
  by (simp add: isEditCommand_def edit_tokens_def canonicalize_def)

lemma isEditCommand_example_chat: "\<not> isEditCommand ''what's a good lamp for this room?''"
  by (simp add: isEditCommand_def edit_tokens_def canonicalize_def)

section \<open>Facts about effect lists and the example inputs\<close>

lemma apply_effects_Nil [simp]: "apply_effects [] s = s"
  by (simp add: apply_effects_def)

lemma apply_effects_Cons [simp]: "apply_effects (e # effs) s = apply_effects effs (apply_effect s e)"
  by (simp add: apply_effects_def)

lemma apply_effects_append [simp]:
  "apply_effects (xs @ ys) s = apply_effects ys (apply_effects xs s)"
  by (simp add: apply_effects_def)

lemma appended_messages_append [simp]:
  "appended_messages (xs @ ys) = appended_messages xs @ appended_messages ys"
  by (induction xs rule: appended_messages.induct) auto

lemma appended_images_append [simp]:
  "appended_images (xs @ ys) = appended_images xs @ appended_images ys"
  by (induction xs rule: appended_images.induct) auto

lemma gateway_requests_append [simp]:
  "gateway_requests (xs @ ys) = gateway_requests xs @ gateway_requests ys"
  by (induction xs rule: gateway_requests.induct) auto

text \<open>When the last effect of a handler sets the status, that is the status it leaves.\<close>

lemma status_apply_effects_last:
  assumes "effs \<noteq> []" and "last effs = SetStatus v"
  shows "status (apply_effects effs s) = v"
proof -
  from assms have "effs = butlast effs @ [SetStatus v]"
    by (metis append_butlast_last_id)
  then have "apply_effects effs s = apply_effects [SetStatus v] (apply_effects (butlast effs) s)"
    by (metis apply_effects_append)
  then show ?thesis by simp
qed

lemma scandi_preset:
  "find (\<lambda>s. preset_id s = ''scandi'') STYLE_PRESETS =
     Some \<lparr>preset_id = ''scandi'', name = ''Scandinavian'',
      prompt = ''Scandinavian style, minimalism, white walls, light wood floors, cozy textiles, functional furniture, bright and airy'',
      thumbnailColor = ''bg-slate-100''\<rparr>"
  by (simp add: STYLE_PRESETS_def)

lemma boho_preset:
  "find (\<lambda>s. preset_id s = ''boho'') STYLE_PRESETS =
     Some \<lparr>preset_id = ''boho'', name = ''Bohemian Chic'',
      prompt = ''Bohemian style, eclectic patterns, plants everywhere, rattan furniture, layered rugs, warm earthy colors, relaxed atmosphere'',
      thumbnailColor = ''bg-orange-100''\<rparr>"
  by (simp add: STYLE_PRESETS_def)

lemma image_service_generate:
  "generateReimaginedRoom image_service img p = Inr ''data:image/png;base64,QUJD''"
  by (simp add: generateReimaginedRoom_def image_service_def image_response_def response_parts_def
      js_index_def data_url_def)

lemma image_service_edit:
  "editRoomImage image_service img p = Inr ''data:image/png;base64,QUJD''"
  by (simp add: editRoomImage_def image_service_def image_response_def response_parts_def
      js_index_def data_url_def)

lemma failing_service_generate:
  "generateReimaginedRoom failing_service img p = Inl ServiceFailure"
  by (simp add: generateReimaginedRoom_def failing_service_def)


lemma isEditCommand_add_plants: "isEditCommand ''add plants''"
  by (simp add: isEditCommand_def edit_tokens_def canonicalize_def)

lemma example_displayed: "currentDisplayedImage example_state = Some example_image"
  by (simp add: currentDisplayedImage_def example_state_def js_index_def)

section \<open>The image operations of the gateway\<close>

text \<open>The extraction loop returns the data URL of the first part that carries inline data.\<close>

lemma extract_image_find:
  "extract_image msg ps =
     (case find (\<lambda>p. inlineData p \<noteq> None) ps of
        None \<Rightarrow> Inl (Error msg)
      | Some p \<Rightarrow> Inr (data_url (the (inlineData p))))"
  by (induction ps) (auto split: option.splits)








text \<open>A response without candidates makes both operations fail with their own error.\<close>

lemma no_image_example:
  "generateReimaginedRoom (\<lambda>request. Inr \<lparr>candidates = None, response_text = None\<rparr>) img p
     = Inl (Error ''No image generated.'')
   \<and> editRoomImage (\<lambda>request. Inr \<lparr>candidates = None, response_text = None\<rparr>) img p
     = Inl (Error ''No edited image generated.'')"
  by (simp add: generateReimaginedRoom_def editRoomImage_def response_parts_def)


section \<open>The busy-status guards\<close>

text \<open>
  The handlers are called from two places only: the style buttons, which are disabled
  unless the status is \<open>IDLE\<close>, and the submit handler of the chat form, which calls
  \<open>onSendMessage\<close> only when \<open>isProcessing\<close> (status not \<open>IDLE\<close>) is false. Controls and
  handlers belong to the same render, so a handler is never called with a busy status in
  its closure.
\<close>

text \<open>
  C1. For every invocation of style selection or chat submission while the status is not
  \<open>IDLE\<close> (that is \<open>GENERATING\<close>, \<open>EDITING\<close> or \<open>ERROR\<close>), the invocation has no observable
  effect: no gateway request is issued, nothing is appended to \<open>generatedImages\<close> or
  \<open>chatMessages\<close>, the session state is unchanged, and the input box of the chat form keeps
  its text.
\<close>

theorem C1_busy_controls_no_effect:
  assumes "status c \<noteq> IDLE"
  shows "styleButton_click svc now c styleId = []
       \<and> chat_submit svc now c input = (input, [])
       \<and> gateway_requests (styleButton_click svc now c styleId) = []
       \<and> gateway_requests (snd (chat_submit svc now c input)) = []
       \<and> appended_images (styleButton_click svc now c styleId) = []
       \<and> appended_images (snd (chat_submit svc now c input)) = []
       \<and> appended_messages (styleButton_click svc now c styleId) = []
       \<and> appended_messages (snd (chat_submit svc now c input)) = []
       \<and> apply_effects (styleButton_click svc now c styleId) s = s
       \<and> apply_effects (snd (chat_submit svc now c input)) s = s"
  using assms
  by (simp add: styleButton_click_def chat_submit_def handleSubmit_def)

theorem C1_witness:
  "status (example_state\<lparr>status := GENERATING\<rparr>) \<noteq> IDLE
   \<and> styleButton_click image_service example_clock (example_state\<lparr>status := GENERATING\<rparr>) ''scandi'' = []
   \<and> chat_submit image_service example_clock (example_state\<lparr>status := GENERATING\<rparr>) ''add plants''
       = (''add plants'', [])
   \<and> status (example_state\<lparr>status := EDITING\<rparr>) \<noteq> IDLE
   \<and> styleButton_click image_service example_clock (example_state\<lparr>status := EDITING\<rparr>) ''scandi'' = []
   \<and> chat_submit image_service example_clock (example_state\<lparr>status := EDITING\<rparr>) ''hello''
       = (''hello'', [])"
proof -
  have g: "status (example_state\<lparr>status := GENERATING\<rparr>) \<noteq> IDLE"
    and e: "status (example_state\<lparr>status := EDITING\<rparr>) \<noteq> IDLE"
    by simp_all
  show ?thesis
    using g e
      C1_busy_controls_no_effect [OF g, of image_service example_clock "''scandi''" "''add plants''"]
      C1_busy_controls_no_effect [OF e, of image_service example_clock "''scandi''" "''hello''"]
    by simp
qed

text \<open>
  In the idle status the controls pass the call on: the button calls \<open>handleStyleSelect\<close>,
  and the form calls \<open>handleChatRequest\<close> with the trimmed text when it is not empty.
\<close>

lemma idle_controls_call_handlers:
  assumes "status c = IDLE"
  shows "styleButton_click svc now c styleId = handleStyleSelect svc now c styleId
       \<and> (js_trim input \<noteq> [] \<longrightarrow>
            chat_submit svc now c input = ([], handleChatRequest svc now c (js_trim input)))"
  using assms by (simp add: styleButton_click_def chat_submit_def handleSubmit_def)

text \<open>
  The handlers' own guards name one status each: \<open>handleStyleSelect\<close> returns at once in
  status \<open>GENERATING\<close>, \<open>handleChatRequest\<close> in status \<open>EDITING\<close>.
\<close>

lemma handler_guards:
  "(status c = GENERATING \<longrightarrow> handleStyleSelect svc now c styleId = [])
   \<and> (status c = EDITING \<longrightarrow> handleChatRequest svc now c text = [])"
  by (simp add: handleStyleSelect_def handleChatRequest_def split: option.splits)

section \<open>A failed edit\<close>




section \<open>Upload and reset\<close>

text \<open>An upload replaces the whole session state, whatever it was.\<close>

lemma upload_clears_session:
  "apply_effects (handleFileUpload (Some reader_result)) s =
     \<lparr>originalImage = reader_result, generatedImages = [], selectedImageIndex = - 1,
      status = IDLE, chatMessages = [], errorMsg = None\<rparr>"
  by (simp add: onloadend_def)

text \<open>The reset button clears three of the six state variables and leaves the others.\<close>

lemma reset_onClick_result:
  "apply_effects reset_onClick s =
     s\<lparr>originalImage := None, generatedImages := [], chatMessages := []\<rparr>"
  by (simp add: reset_onClick_def)

text \<open>
  C3 fails for the reset button. After one design has been generated and a later generation
  has failed, the state has \<open>selectedImageIndex = 0\<close> and an error message; "Start Over"
  empties \<open>generatedImages\<close> but leaves the index at 0 and the error message in place
  (the upload handler sets them to \<open>-1\<close> and \<open>null\<close>).
\<close>

theorem C3_reset_keeps_selection_and_error:
  "selectedImageIndex
     (apply_effects reset_onClick
        (example_state\<lparr>errorMsg := Some ''Failed to generate design. Please try again.''\<rparr>)) = 0
   \<and> errorMsg
     (apply_effects reset_onClick
        (example_state\<lparr>errorMsg := Some ''Failed to generate design. Please try again.''\<rparr>))
     = Some ''Failed to generate design. Please try again.''
   \<and> generatedImages
     (apply_effects reset_onClick
        (example_state\<lparr>errorMsg := Some ''Failed to generate design. Please try again.''\<rparr>)) = []"
  by (simp add: reset_onClick_def example_state_def)

section \<open>Appending an image selects it\<close>

text \<open>A style selection appends an image exactly when its guards pass and the gateway
  returns an image.\<close>

lemma handleStyleSelect_success_iff:
  "appended_images (handleStyleSelect svc now c styleId) \<noteq> [] \<longleftrightarrow>
     (\<exists>original style u. originalImage c = Some original \<and> original \<noteq> []
        \<and> status c \<noteq> GENERATING
        \<and> find (\<lambda>s. preset_id s = styleId) STYLE_PRESETS = Some style
        \<and> generateReimaginedRoom svc original (prompt style) = Inr u)"
  by (auto simp: handleStyleSelect_def split: option.splits sum.splits)

text \<open>
  The index a handler selects is the number of images in the state \<open>c\<close> of its closure;
  the image is appended to the state \<open>s\<close> the effects are applied to.
\<close>

lemma handleStyleSelect_append:
  assumes "appended_images (handleStyleSelect svc now c styleId) \<noteq> []"
  shows "\<exists>img. appended_images (handleStyleSelect svc now c styleId) = [img]
           \<and> generatedImages (apply_effects (handleStyleSelect svc now c styleId) s)
               = generatedImages s @ [img]
           \<and> selectedImageIndex (apply_effects (handleStyleSelect svc now c styleId) s)
               = int (length (generatedImages c))"
  using assms by (auto simp: handleStyleSelect_def split: option.splits sum.splits if_splits)

lemma handleChatRequest_append:
  assumes "appended_images (handleChatRequest svc now c text) \<noteq> []"
  shows "\<exists>img. appended_images (handleChatRequest svc now c text) = [img]
           \<and> generatedImages (apply_effects (handleChatRequest svc now c text) s)
               = generatedImages s @ [img]
           \<and> selectedImageIndex (apply_effects (handleChatRequest svc now c text) s)
               = int (length (generatedImages c))"
  using assms by (auto simp: handleChatRequest_def split: option.splits sum.splits if_splits)

lemma run_style_selections_length:
  "all_successful calls s \<Longrightarrow>
     length (generatedImages (run_style_selections calls s)) = length (generatedImages s) + length calls"
proof (induction calls s rule: run_style_selections.induct)
  case (1 s)
  show ?case by simp
next
  case (2 svc now styleId calls s)
  from "2.prems" have ok: "appended_images (handleStyleSelect svc now s styleId) \<noteq> []"
    and rest: "all_successful calls (run_handleStyleSelect svc now styleId s)"
    by simp_all
  from handleStyleSelect_append [OF ok, of s]
  have "length (generatedImages (run_handleStyleSelect svc now styleId s))
          = Suc (length (generatedImages s))"
    by (auto simp: run_handleStyleSelect_def)
  with "2.IH" [OF rest] show ?case by simp
qed

lemma run_style_selections_selected:
  "all_successful calls s \<Longrightarrow> calls \<noteq> [] \<Longrightarrow>
     selectedImageIndex (run_style_selections calls s)
       = int (length (generatedImages (run_style_selections calls s))) - 1"
proof (induction calls s rule: run_style_selections.induct)
  case (1 s)
  then show ?case by simp
next
  case (2 svc now styleId calls s)
  from "2.prems" have ok: "appended_images (handleStyleSelect svc now s styleId) \<noteq> []"
    and rest: "all_successful calls (run_handleStyleSelect svc now styleId s)"
    by simp_all
  show ?case
  proof (cases "calls = []")
    case True
    with handleStyleSelect_append [OF ok, of s] show ?thesis
      by (auto simp: run_handleStyleSelect_def)
  next
    case False
    with "2.IH" [OF rest] show ?thesis by simp
  qed
qed

text \<open>
  For operations run one after the other, each to its end: every sequence of successful
  style selections makes \<open>generatedImages\<close> grow by exactly one entry per call and ends with
  the last entry selected; and each single append of an image, by a style selection or by
  an edit, puts the image at the end of \<open>generatedImages\<close> and sets \<open>selectedImageIndex\<close> to
  its index, the previous length.
\<close>

lemma sequential_append_selects_new_image:
  "(all_successful calls s \<longrightarrow>
      length (generatedImages (run_style_selections calls s))
        = length (generatedImages s) + length calls
      \<and> (calls \<noteq> [] \<longrightarrow>
           selectedImageIndex (run_style_selections calls s)
             = int (length (generatedImages (run_style_selections calls s))) - 1))
   \<and> (appended_images (handleStyleSelect svc now s styleId) \<noteq> [] \<longrightarrow>
        (\<exists>img. generatedImages (run_handleStyleSelect svc now styleId s) = generatedImages s @ [img])
        \<and> selectedImageIndex (run_handleStyleSelect svc now styleId s)
            = int (length (generatedImages s)))
   \<and> (appended_images (handleChatRequest svc' now' s' text) \<noteq> [] \<longrightarrow>
        (\<exists>img. generatedImages (run_handleChatRequest svc' now' text s') = generatedImages s' @ [img])
        \<and> selectedImageIndex (run_handleChatRequest svc' now' text s')
            = int (length (generatedImages s')))"
proof (intro conjI impI)
  assume "all_successful calls s"
  then show "length (generatedImages (run_style_selections calls s))
        = length (generatedImages s) + length calls"
    by (rule run_style_selections_length)
next
  assume "all_successful calls s" and "calls \<noteq> []"
  then show "selectedImageIndex (run_style_selections calls s)
             = int (length (generatedImages (run_style_selections calls s))) - 1"
    by (rule run_style_selections_selected)
next
  assume ok: "appended_images (handleStyleSelect svc now s styleId) \<noteq> []"
  from handleStyleSelect_append [OF ok, of s]
  show "\<exists>img. generatedImages (run_handleStyleSelect svc now styleId s) = generatedImages s @ [img]"
    and "selectedImageIndex (run_handleStyleSelect svc now styleId s) = int (length (generatedImages s))"
    by (auto simp: run_handleStyleSelect_def)
next
  assume ok: "appended_images (handleChatRequest svc' now' s' text) \<noteq> []"
  from handleChatRequest_append [OF ok, of s']
  show "\<exists>img. generatedImages (run_handleChatRequest svc' now' text s') = generatedImages s' @ [img]"
    and "selectedImageIndex (run_handleChatRequest svc' now' text s') = int (length (generatedImages s'))"
    by (auto simp: run_handleChatRequest_def)
qed

lemma sequential_append_example:
  "all_successful [(image_service, example_clock, ''scandi''), (image_service, example_clock, ''boho'')]
     example_state
   \<and> length (generatedImages
        (run_style_selections
           [(image_service, example_clock, ''scandi''), (image_service, example_clock, ''boho'')]
           example_state)) = 3
   \<and> selectedImageIndex
        (run_style_selections
           [(image_service, example_clock, ''scandi''), (image_service, example_clock, ''boho'')]
           example_state) = 2
   \<and> appended_images (handleStyleSelect image_service example_clock example_state ''scandi'') \<noteq> []
   \<and> selectedImageIndex (run_handleStyleSelect image_service example_clock ''scandi'' example_state) = 1
   \<and> appended_images (handleChatRequest image_service example_clock example_state ''add plants'') \<noteq> []
   \<and> selectedImageIndex (run_handleChatRequest image_service example_clock ''add plants'' example_state) = 1"
proof -
  let ?calls = "[(image_service, example_clock, ''scandi''), (image_service, example_clock, ''boho'')]"
  have len: "length (generatedImages example_state) = 1"
    by (simp add: example_state_def)
  have s1: "appended_images (handleStyleSelect image_service example_clock example_state ''scandi'') \<noteq> []"
    by (simp add: handleStyleSelect_def example_state_def scandi_preset image_service_generate)
  have s2: "appended_images
      (handleStyleSelect image_service example_clock
         (run_handleStyleSelect image_service example_clock ''scandi'' example_state) ''boho'') \<noteq> []"
    by (simp add: run_handleStyleSelect_def handleStyleSelect_def example_state_def scandi_preset
        boho_preset image_service_generate)
  have ok: "all_successful ?calls example_state"
    using s1 s2 by simp
  have e1: "appended_images (handleChatRequest image_service example_clock example_state ''add plants'') \<noteq> []"
    by (simp add: handleChatRequest_def isEditCommand_add_plants example_displayed
        image_service_edit) (simp add: example_state_def)
  show ?thesis
    using ok s1 e1 len
      sequential_append_selects_new_image [of ?calls example_state image_service example_clock "''scandi''"
        image_service example_clock example_state "''add plants''"]
    by simp
qed

lemma before_after_answer: "before_answer effs @ after_answer effs = effs"
  by (induction effs rule: before_answer.induct) auto

text \<open>
  C4 fails when the reset button is clicked between a style selection and the answer of
  the gateway. The handler appends the new image to the list as it is when the answer
  arrives, but selects \<open>generatedImages.length\<close> of its closure, the length at the time of
  the click on the style. With one design in the session, a style selection, then
  "Start Over", then the answer: the list holds the new image alone, at index 0, and the
  selected index is 1, which displays nothing.
\<close>

theorem C4_reset_before_answer_selects_missing_entry:
  "length (generatedImages
     (apply_effects (after_answer (handleStyleSelect image_service example_clock example_state ''scandi''))
        (apply_effects reset_onClick
           (apply_effects (before_answer (handleStyleSelect image_service example_clock example_state ''scandi''))
              example_state)))) = 1
   \<and> selectedImageIndex
     (apply_effects (after_answer (handleStyleSelect image_service example_clock example_state ''scandi''))
        (apply_effects reset_onClick
           (apply_effects (before_answer (handleStyleSelect image_service example_clock example_state ''scandi''))
              example_state))) = 1
   \<and> currentDisplayedImage
     (apply_effects (after_answer (handleStyleSelect image_service example_clock example_state ''scandi''))
        (apply_effects reset_onClick
           (apply_effects (before_answer (handleStyleSelect image_service example_clock example_state ''scandi''))
              example_state))) = None"
  by (simp add: handleStyleSelect_def example_state_def scandi_preset image_service_generate
      reset_onClick_def currentDisplayedImage_def js_index_def)

section \<open>Return to Idle\<close>

lemma handleStyleSelect_shape:
  "handleStyleSelect svc now c styleId = [] \<or>
   (\<exists>req mid. handleStyleSelect svc now c styleId =
      [SetStatus GENERATING, SetErrorMsg None, GatewayRequest req] @ mid @ [SetStatus IDLE])"
  by (auto simp: handleStyleSelect_def split: option.splits)

lemma handleChatRequest_shape:
  "handleChatRequest svc now c text = [] \<or>
   (\<exists>userMsg v mid. (v = GENERATING \<or> v = EDITING) \<and> handleChatRequest svc now c text =
      [AppendChatMessage userMsg, SetStatus v] @ mid @ [SetStatus IDLE])"
  by (auto simp: handleChatRequest_def split: option.splits)

text \<open>
  C5. Whenever \<open>handleStyleSelect\<close> or \<open>handleChatRequest\<close> does not return at its guard,
  it sets the status to \<open>GENERATING\<close> or \<open>EDITING\<close>, its last effect sets the status to
  \<open>IDLE\<close>, and the status is \<open>IDLE\<close> once its effects are applied, whatever the gateway call
  returned (an image, a message or a failure) and whatever state they are applied to.
\<close>

theorem C5_returns_to_idle:
  "(handleStyleSelect svc now c styleId \<noteq> [] \<longrightarrow>
      SetStatus GENERATING \<in> set (handleStyleSelect svc now c styleId)
      \<and> last (handleStyleSelect svc now c styleId) = SetStatus IDLE
      \<and> status (apply_effects (handleStyleSelect svc now c styleId) s) = IDLE)
   \<and> (handleChatRequest svc now c text \<noteq> [] \<longrightarrow>
      (SetStatus GENERATING \<in> set (handleChatRequest svc now c text)
       \<or> SetStatus EDITING \<in> set (handleChatRequest svc now c text))
      \<and> last (handleChatRequest svc now c text) = SetStatus IDLE
      \<and> status (apply_effects (handleChatRequest svc now c text) s) = IDLE)"
proof (intro conjI impI)
  assume ne: "handleStyleSelect svc now c styleId \<noteq> []"
  with handleStyleSelect_shape [of svc "now" c styleId]
  obtain req mid where eq: "handleStyleSelect svc now c styleId =
      [SetStatus GENERATING, SetErrorMsg None, GatewayRequest req] @ mid @ [SetStatus IDLE]"
    by blast
  show "SetStatus GENERATING \<in> set (handleStyleSelect svc now c styleId)"
    by (simp add: eq)
  show l: "last (handleStyleSelect svc now c styleId) = SetStatus IDLE"
    by (simp add: eq)
  show "status (apply_effects (handleStyleSelect svc now c styleId) s) = IDLE"
    using ne l by (rule status_apply_effects_last)
next
  assume ne: "handleChatRequest svc now c text \<noteq> []"
  with handleChatRequest_shape [of svc "now" c "text"]
  obtain userMsg v mid where v: "v = GENERATING \<or> v = EDITING"
    and eq: "handleChatRequest svc now c text =
      [AppendChatMessage userMsg, SetStatus v] @ mid @ [SetStatus IDLE]"
    by blast
  show "SetStatus GENERATING \<in> set (handleChatRequest svc now c text)
       \<or> SetStatus EDITING \<in> set (handleChatRequest svc now c text)"
    using v by (auto simp: eq)
  show l: "last (handleChatRequest svc now c text) = SetStatus IDLE"
    by (simp add: eq)
  show "status (apply_effects (handleChatRequest svc now c text) s) = IDLE"
    using ne l by (rule status_apply_effects_last)
qed

theorem C5_witness:
  "handleStyleSelect failing_service example_clock example_state ''scandi'' \<noteq> []
   \<and> status (apply_effects (handleStyleSelect failing_service example_clock example_state ''scandi'')
        (example_state\<lparr>status := GENERATING\<rparr>)) = IDLE
   \<and> handleChatRequest failing_service example_clock example_state ''add plants'' \<noteq> []
   \<and> status (apply_effects (handleChatRequest failing_service example_clock example_state ''add plants'')
        (example_state\<lparr>status := GENERATING\<rparr>)) = IDLE
   \<and> handleStyleSelect image_service example_clock example_state ''scandi'' \<noteq> []
   \<and> status (apply_effects (handleStyleSelect image_service example_clock example_state ''scandi'')
        (example_state\<lparr>status := GENERATING\<rparr>)) = IDLE
   \<and> handleChatRequest image_service example_clock example_state ''hello'' \<noteq> []
   \<and> status (apply_effects (handleChatRequest image_service example_clock example_state ''hello'')
        (example_state\<lparr>status := GENERATING\<rparr>)) = IDLE"
proof -
  have a: "handleStyleSelect failing_service example_clock example_state ''scandi'' \<noteq> []"
    and b: "handleStyleSelect image_service example_clock example_state ''scandi'' \<noteq> []"
    by (simp_all add: handleStyleSelect_def example_state_def scandi_preset)
  have c: "handleChatRequest failing_service example_clock example_state ''add plants'' \<noteq> []"
    and d: "handleChatRequest image_service example_clock example_state ''hello'' \<noteq> []"
    by (simp_all add: handleChatRequest_def example_state_def)
  show ?thesis
    using a b c d
      C5_returns_to_idle [of failing_service example_clock example_state "''scandi''"
        "example_state\<lparr>status := GENERATING\<rparr>" "''add plants''"]
      C5_returns_to_idle [of image_service example_clock example_state "''scandi''"
        "example_state\<lparr>status := GENERATING\<rparr>" "''hello''"]
    by simp
qed

section \<open>A failed style generation\<close>

text \<open>
  C7. When a style selection passes its guards and the Regenerate call fails (the service
  rejects, or its response has no image), no image is appended, \<open>generatedImages\<close> and
  \<open>selectedImageIndex\<close> are left as they were, the error message is set to a non-empty
  text, and the status is \<open>IDLE\<close>.
\<close>

theorem C7_failed_regenerate:
  assumes "originalImage c = Some original" and "original \<noteq> []" and "status c \<noteq> GENERATING"
    and "find (\<lambda>s. preset_id s = styleId) STYLE_PRESETS = Some style"
    and "generateReimaginedRoom svc original (prompt style) = Inl e"
  shows "generatedImages (apply_effects (handleStyleSelect svc now c styleId) s) = generatedImages s
    \<and> selectedImageIndex (apply_effects (handleStyleSelect svc now c styleId) s) = selectedImageIndex s
    \<and> appended_images (handleStyleSelect svc now c styleId) = []
    \<and> errorMsg (apply_effects (handleStyleSelect svc now c styleId) s)
        = Some ''Failed to generate design. Please try again.''
    \<and> ''Failed to generate design. Please try again.'' \<noteq> []
    \<and> status (apply_effects (handleStyleSelect svc now c styleId) s) = IDLE"
  using assms by (simp add: handleStyleSelect_def)

theorem C7_witness:
  "originalImage example_state = Some ''data:image/jpeg;base64,QUJD''
   \<and> ''data:image/jpeg;base64,QUJD'' \<noteq> []
   \<and> status example_state \<noteq> GENERATING
   \<and> generateReimaginedRoom failing_service ''data:image/jpeg;base64,QUJD''
        ''Scandinavian style, minimalism, white walls, light wood floors, cozy textiles, functional furniture, bright and airy''
        = Inl ServiceFailure
   \<and> generatedImages
        (apply_effects (handleStyleSelect failing_service example_clock example_state ''scandi'')
           example_state) = [example_image]
   \<and> selectedImageIndex
        (apply_effects (handleStyleSelect failing_service example_clock example_state ''scandi'')
           example_state) = 0
   \<and> errorMsg
        (apply_effects (handleStyleSelect failing_service example_clock example_state ''scandi'')
           example_state) = Some ''Failed to generate design. Please try again.''
   \<and> status
        (apply_effects (handleStyleSelect failing_service example_clock example_state ''scandi'')
           example_state) = IDLE"
proof -
  have h1: "originalImage example_state = Some ''data:image/jpeg;base64,QUJD''"
    and h3: "status example_state \<noteq> GENERATING"
    and h6: "generatedImages example_state = [example_image]"
    and h7: "selectedImageIndex example_state = 0"
    by (simp_all add: example_state_def)
  have h2: "''data:image/jpeg;base64,QUJD'' \<noteq> []" by simp
  note h4 = scandi_preset
  have h5: "generateReimaginedRoom failing_service ''data:image/jpeg;base64,QUJD''
      (prompt \<lparr>preset_id = ''scandi'', name = ''Scandinavian'',
      prompt = ''Scandinavian style, minimalism, white walls, light wood floors, cozy textiles, functional furniture, bright and airy'',
      thumbnailColor = ''bg-slate-100''\<rparr>) = Inl ServiceFailure"
    by (rule failing_service_generate)
  show ?thesis
    using C7_failed_regenerate [OF h1 h2 h3 h4 h5, of example_clock example_state] h1 h3 h5 h6 h7
    by simp
qed

section \<open>The user message comes first\<close>



section \<open>The slider position\<close>

lemma handleMove_zero_x:
  "Math_max (Num 0) (Math_min v (Num 0)) = NaN \<or> Math_max (Num 0) (Math_min v (Num 0)) = Num 0"
  by (cases v) auto

lemma clamp_percent:
  "v \<noteq> NaN \<Longrightarrow> \<exists>p. Math_max (Num 0) (Math_min v (Num 100)) = Num p \<and> 0 \<le> p \<and> p \<le> 100"
  by (cases v) auto

text \<open>
  For a container of non-zero width the position is a number between 0 and 100, whatever
  the pointer position and however the arithmetic rounds.
\<close>

lemma handleMove_in_range:
  assumes "rect_width rect \<noteq> 0" and "\<And>r. rnd r \<noteq> NaN"
  shows "\<exists>p. handleMove rnd (Some rect) clientX = Some (Num p) \<and> 0 \<le> p \<and> p \<le> 100"
proof -
  define d where "d = rnd (clientX - rect_left rect)"
  have "d \<noteq> NaN" by (simp add: d_def assms(2))
  then obtain x where x: "Math_max (Num 0) (Math_min d (Num (rect_width rect))) = Num x"
    by (cases d) auto
  define m where "m = js_mul rnd (rnd (x / rect_width rect)) (Num 100)"
  have "m \<noteq> NaN"
    unfolding m_def by (cases "rnd (x / rect_width rect)") (auto simp: assms(2) signed_inf_def)
  then obtain p where p: "Math_max (Num 0) (Math_min m (Num 100)) = Num p" "0 \<le> p" "p \<le> 100"
    using clamp_percent by blast
  have "handleMove rnd (Some rect) clientX = Some (Math_max (Num 0) (Math_min m (Num 100)))"
    by (simp add: handleMove_def Let_def x [unfolded d_def] m_def assms(1))
  with p show ?thesis by simp
qed

text \<open>
  C9 fails for a container of width 0: \<open>x\<close> is then 0, \<open>x / rect.width\<close> is \<open>0 / 0 = NaN\<close>,
  and neither \<open>Math.min\<close> nor \<open>Math.max\<close> removes a \<open>NaN\<close>, so the position given to
  \<open>setSliderPosition\<close> is \<open>NaN\<close>, for every pointer position and every rounding.
\<close>

theorem C9_handleMove_zero_width:
  "handleMove rnd (Some \<lparr>rect_left = l, rect_width = 0\<rparr>) clientX = Some NaN"
  using handleMove_zero_x [of "js_sub rnd (Num clientX) (Num l)"]
  by (auto simp: handleMove_def Let_def)

end
